theory Spec2Isabelle
  imports Main "HOL-Library.Multiset"
begin

section \<open>Data model (types/tmux.ts, types/bookmark.ts)\<close>

text \<open>
  The TypeScript interfaces become records. Field names are the source's; where two
  interfaces share a field name the selector is written qualified
  (\<open>TmuxSession.sessionId\<close>, \<open>TmuxWindow.sessionId\<close>). An optional field
  \<open>f?: T\<close> is a \<open>T option\<close>, \<open>None\<close> standing for \<open>undefined\<close>. JavaScript numbers
  that hold indices, counters and Unix timestamps are integers.
\<close>

record TmuxSession =
  sessionId :: string
  sessionName :: string
  windowCount :: int
  attached :: bool
  created :: int

record TmuxWindow =
  windowId :: string
  windowIndex :: int
  windowName :: string
  sessionId :: string
  sessionName :: string
  active :: bool
  paneCount :: int

record TmuxPane =
  paneId :: string
  paneIndex :: int
  windowId :: string
  windowIndex :: int
  windowName :: string
  sessionId :: string
  sessionName :: string
  active :: bool
  cwd :: string
  currentCommand :: string

record TmuxState =
  sessions :: "TmuxSession list"
  windows :: "TmuxWindow list"
  panes :: "TmuxPane list"

record TmuxTarget =
  sessionId :: "string option"
  windowId :: "string option"
  paneId :: "string option"

record TmuxFallback =
  sessionName :: "string option"
  windowIndex :: "int option"
  windowName :: "string option"
  paneIndex :: "int option"

datatype BookmarkKind = Session | Window | Pane

record BookmarkMeta =
  cwd :: "string option"
  host :: "string option"
  lastUsed :: int
  createdAt :: int

text \<open>The field \<open>id\<close> of the source is \<open>id_bm\<close> here (\<open>id\<close> is HOL's identity function).\<close>

record Bookmark =
  id_bm :: string
  label :: string
  kind :: BookmarkKind
  target :: TmuxTarget
  fallback :: TmuxFallback
  meta :: BookmarkMeta

datatype ResolutionMethod = MethodId | MethodFallback | MethodCwd

datatype BookmarkResolution =
  Resolved ResolutionMethod TmuxTarget
| Unresolved string

record BookmarksFile =
  version :: int
  items :: "Bookmark list"

definition CURRENT_SCHEMA_VERSION :: int where
  "CURRENT_SCHEMA_VERSION = 1"

section \<open>JavaScript truthiness of an optional string\<close>

text \<open>
  The resolver tests optional string fields with \<open>if (x)\<close> and \<open>if (!x)\<close>. Such a
  test passes for a string exactly when it is defined and not the empty string.
\<close>

definition truthy :: "string option \<Rightarrow> bool" where
  "truthy v = (case v of None \<Rightarrow> False | Some s \<Rightarrow> s \<noteq> [])"

section \<open>Point lookups of the adapter (tmux/adapter.ts)\<close>

text \<open>
  Each lookup of \<open>TmuxAdapter\<close> lists the live entities and returns the first one that
  satisfies the predicate (\<open>Array.prototype.find\<close>, \<open>null\<close> when there is none). The
  listing itself runs the tmux binary; here the adapter is the snapshot \<open>TmuxState\<close> it
  would list, the same one for all lookups of one resolution.
\<close>

definition findSessionById :: "TmuxState \<Rightarrow> string \<Rightarrow> TmuxSession option" where
  "findSessionById st sid = find (\<lambda>s. TmuxSession.sessionId s = sid) (sessions st)"

definition findWindowById :: "TmuxState \<Rightarrow> string \<Rightarrow> TmuxWindow option" where
  "findWindowById st wid = find (\<lambda>w. TmuxWindow.windowId w = wid) (windows st)"

definition findPaneById :: "TmuxState \<Rightarrow> string \<Rightarrow> TmuxPane option" where
  "findPaneById st pid = find (\<lambda>p. TmuxPane.paneId p = pid) (panes st)"

definition findSessionByName :: "TmuxState \<Rightarrow> string \<Rightarrow> TmuxSession option" where
  "findSessionByName st name = find (\<lambda>s. TmuxSession.sessionName s = name) (sessions st)"

definition findWindowByName :: "TmuxState \<Rightarrow> string \<Rightarrow> string \<Rightarrow> TmuxWindow option" where
  "findWindowByName st sid wname =
     find (\<lambda>w. TmuxWindow.sessionId w = sid \<and> TmuxWindow.windowName w = wname) (windows st)"

definition findWindowByIndex :: "TmuxState \<Rightarrow> string \<Rightarrow> int \<Rightarrow> TmuxWindow option" where
  "findWindowByIndex st sid widx =
     find (\<lambda>w. TmuxWindow.sessionId w = sid \<and> TmuxWindow.windowIndex w = widx) (windows st)"

section \<open>The resolver (cli/resolver.ts)\<close>

text \<open>
  Tier 1: the stable identifier that the bookmark's kind requires. The \<open>default\<close> branch
  of the source's \<open>switch\<close> has no counterpart: \<open>BookmarkKind\<close> has the three values only.
\<close>

definition tryResolveById :: "Bookmark \<Rightarrow> TmuxState \<Rightarrow> TmuxTarget option" where
  "tryResolveById bookmark adapter =
     (case kind bookmark of
        Session \<Rightarrow>
          (if \<not> truthy (TmuxTarget.sessionId (target bookmark)) then None
           else (case findSessionById adapter (the (TmuxTarget.sessionId (target bookmark))) of
                   None \<Rightarrow> None
                 | Some session \<Rightarrow>
                     Some \<lparr>TmuxTarget.sessionId = Some (TmuxSession.sessionId session),
                           windowId = None, paneId = None\<rparr>))
      | Window \<Rightarrow>
          (if \<not> truthy (TmuxTarget.windowId (target bookmark)) then None
           else (case findWindowById adapter (the (TmuxTarget.windowId (target bookmark))) of
                   None \<Rightarrow> None
                 | Some window \<Rightarrow>
                     Some \<lparr>TmuxTarget.sessionId = Some (TmuxWindow.sessionId window),
                           windowId = Some (TmuxWindow.windowId window), paneId = None\<rparr>))
      | Pane \<Rightarrow>
          (if \<not> truthy (TmuxTarget.paneId (target bookmark)) then None
           else (case findPaneById adapter (the (TmuxTarget.paneId (target bookmark))) of
                   None \<Rightarrow> None
                 | Some pane \<Rightarrow>
                     Some \<lparr>TmuxTarget.sessionId = Some (TmuxPane.sessionId pane),
                           windowId = Some (TmuxPane.windowId pane),
                           paneId = Some (TmuxPane.paneId pane)\<rparr>)))"

text \<open>
  Tier 2: names and indexes. The source keeps two mutable variables, \<open>session\<close> and
  \<open>window\<close>, and runs through a sequence of early returns; the model keeps that
  sequence. \<open>fallback.windowIndex !== undefined\<close> is \<open>windowIndex fb \<noteq> None\<close>.
\<close>

definition tryResolveByFallback :: "Bookmark \<Rightarrow> TmuxState \<Rightarrow> TmuxTarget option" where
  "tryResolveByFallback bookmark adapter =
     (let fb = fallback bookmark;
          k = kind bookmark;
          session = (if truthy (TmuxFallback.sessionName fb)
                     then findSessionByName adapter (the (TmuxFallback.sessionName fb))
                     else None)
      in if session = None \<and> k = Session then None
         else if k = Session \<and> session \<noteq> None then
           Some \<lparr>TmuxTarget.sessionId = Some (TmuxSession.sessionId (the session)),
                 windowId = None, paneId = None\<rparr>
         else if session = None then None
         else
           (let byName = (if truthy (TmuxFallback.windowName fb)
                          then findWindowByName adapter (TmuxSession.sessionId (the session))
                                 (the (TmuxFallback.windowName fb))
                          else None);
                window = (if byName = None \<and> TmuxFallback.windowIndex fb \<noteq> None
                          then findWindowByIndex adapter (TmuxSession.sessionId (the session))
                                 (the (TmuxFallback.windowIndex fb))
                          else byName)
            in if window = None \<and> (k = Window \<or> k = Pane) then None
               else if k = Window \<and> window \<noteq> None then
                 Some \<lparr>TmuxTarget.sessionId = Some (TmuxSession.sessionId (the session)),
                       windowId = Some (TmuxWindow.windowId (the window)), paneId = None\<rparr>
               else if k = Pane \<and> window \<noteq> None then
                 Some \<lparr>TmuxTarget.sessionId = Some (TmuxSession.sessionId (the session)),
                       windowId = Some (TmuxWindow.windowId (the window)), paneId = None\<rparr>
               else None))"

text \<open>Tier 3: the first live pane whose working directory is the recorded one.\<close>

definition tryResolveByCwd :: "string \<Rightarrow> TmuxState \<Rightarrow> TmuxTarget option" where
  "tryResolveByCwd dir adapter =
     (case find (\<lambda>p. TmuxPane.cwd p = dir) (panes adapter) of
        Some match \<Rightarrow>
          Some \<lparr>TmuxTarget.sessionId = Some (TmuxPane.sessionId match),
                windowId = Some (TmuxPane.windowId match),
                paneId = Some (TmuxPane.paneId match)\<rparr>
      | None \<Rightarrow> None)"

definition resolveBookmark :: "Bookmark \<Rightarrow> TmuxState \<Rightarrow> BookmarkResolution" where
  "resolveBookmark bookmark adapter =
     (case tryResolveById bookmark adapter of
        Some idResult \<Rightarrow> Resolved MethodId idResult
      | None \<Rightarrow>
          (case tryResolveByFallback bookmark adapter of
             Some fallbackResult \<Rightarrow> Resolved MethodFallback fallbackResult
           | None \<Rightarrow>
               (case (if truthy (BookmarkMeta.cwd (meta bookmark))
                      then tryResolveByCwd (the (BookmarkMeta.cwd (meta bookmark))) adapter
                      else None) of
                  Some cwdResult \<Rightarrow> Resolved MethodCwd cwdResult
                | None \<Rightarrow>
                    Unresolved ''Could not resolve bookmark to a valid tmux target'')))"

section \<open>The bookmark store (storage/store.ts)\<close>

text \<open>
  The bookmarks file is in one of four states when the store reads it: it does not
  exist, its content is not JSON (\<open>file.json()\<close> throws a \<open>SyntaxError\<close>), it parses to
  an envelope, or reading it fails for another reason (the exception is rethrown).
  Every operation of the store starts with \<open>read\<close>; a mutating one ends with \<open>write\<close>
  (\<open>write_file\<close> here),
  which replaces the whole file. An operation takes the file state and returns its
  result with the file state it leaves, or the error that \<open>read\<close> propagated. Failures
  of \<open>write\<close> are not modelled.
\<close>

datatype FileState = Missing | Corrupted | Parsed BookmarksFile | Unreadable

datatype StoreError = PersistenceFailure

definition migrate :: "BookmarksFile \<Rightarrow> BookmarksFile" where
  "migrate data =
     (if version data = CURRENT_SCHEMA_VERSION then data
      else data\<lparr>version := CURRENT_SCHEMA_VERSION\<rparr>)"

fun read :: "FileState \<Rightarrow> StoreError + BookmarksFile" where
  "read Missing = Inr \<lparr>version = CURRENT_SCHEMA_VERSION, items = []\<rparr>"
| "read (Parsed content) = Inr (migrate content)"
| "read Corrupted = Inr \<lparr>version = CURRENT_SCHEMA_VERSION, items = []\<rparr>"
| "read Unreadable = Inl PersistenceFailure"

definition write_file :: "BookmarksFile \<Rightarrow> FileState" where
  "write_file data = Parsed data"

text \<open>
  \<open>Array.prototype.splice(start, deleteCount, ...inserted)\<close> for \<open>start \<ge> 0\<close>: the
  removed elements and the array it leaves.
\<close>

definition splice_js :: "nat \<Rightarrow> nat \<Rightarrow> 'a list \<Rightarrow> 'a list \<Rightarrow> 'a list \<times> 'a list" where
  "splice_js start deleteCount inserted xs =
     (take deleteCount (drop start xs),
      take start xs @ inserted @ drop (start + deleteCount) xs)"

text \<open>
  \<open>rename\<close> assigns to a field of the object that \<open>find\<close> returned, which is the first
  element of the array that satisfies the predicate: the array changes in that place.
\<close>

fun assign_found :: "('a \<Rightarrow> bool) \<Rightarrow> ('a \<Rightarrow> 'a) \<Rightarrow> 'a list \<Rightarrow> 'a list" where
  "assign_found P f [] = []"
| "assign_found P f (x # xs) = (if P x then f x # xs else x # assign_found P f xs)"

text \<open>\<open>list()\<close> of the source is \<open>list_items\<close> here.\<close>

definition list_items :: "FileState \<Rightarrow> StoreError + Bookmark list" where
  "list_items fs = (case read fs of Inl e \<Rightarrow> Inl e | Inr data \<Rightarrow> Inr (items data))"

definition getByLabel :: "string \<Rightarrow> FileState \<Rightarrow> StoreError + Bookmark option" where
  "getByLabel l fs =
     (case read fs of
        Inl e \<Rightarrow> Inl e
      | Inr data \<Rightarrow> Inr (find (\<lambda>b. label b = l) (items data)))"

definition getBySlot :: "int \<Rightarrow> FileState \<Rightarrow> StoreError + Bookmark option" where
  "getBySlot slot fs =
     (case read fs of
        Inl e \<Rightarrow> Inl e
      | Inr data \<Rightarrow>
          (let index = slot - 1
           in if index < 0 \<or> index \<ge> int (length (items data)) then Inr None
              else Inr (Some (items data ! nat index))))"

definition removeBySlot :: "int \<Rightarrow> FileState \<Rightarrow> StoreError + bool \<times> FileState" where
  "removeBySlot slot fs =
     (case read fs of
        Inl e \<Rightarrow> Inl e
      | Inr data \<Rightarrow>
          (let index = slot - 1
           in if index < 0 \<or> index \<ge> int (length (items data)) then Inr (False, fs)
              else Inr (True,
                     write_file (data\<lparr>items := snd (splice_js (nat index) 1 [] (items data))\<rparr>))))"

definition rename :: "string \<Rightarrow> string \<Rightarrow> FileState \<Rightarrow> StoreError + bool \<times> FileState" where
  "rename i newLabel fs =
     (case read fs of
        Inl e \<Rightarrow> Inl e
      | Inr data \<Rightarrow>
          (case find (\<lambda>b. id_bm b = i) (items data) of
             None \<Rightarrow> Inr (False, fs)
           | Some bookmark \<Rightarrow>
               Inr (True,
                 write_file (data\<lparr>items :=
                   assign_found (\<lambda>b. id_bm b = i) (\<lambda>b. b\<lparr>label := newLabel\<rparr>) (items data)\<rparr>))))"

text \<open>
  \<open>replace\<close> reads its surroundings four times: \<open>generateId()\<close>, the host name from the
  process environment, and \<open>now()\<close> twice (for \<open>lastUsed\<close>, then for \<open>createdAt\<close>). The
  model takes these four values as a record.
\<close>

record Env =
  generateId :: string
  hostname :: "string option"
  now_lastUsed :: int
  now_createdAt :: int

definition replace ::
  "int \<Rightarrow> string \<Rightarrow> BookmarkKind \<Rightarrow> TmuxTarget \<Rightarrow> TmuxFallback \<Rightarrow> string option \<Rightarrow> Env
     \<Rightarrow> FileState \<Rightarrow> StoreError + Bookmark option \<times> FileState" where
  "replace slot l k tgt fb dir env fs =
     (case read fs of
        Inl e \<Rightarrow> Inl e
      | Inr data \<Rightarrow>
          (let index = slot - 1
           in if index < 0 then Inr (None, fs)
              else
                (let bookmark =
                       \<lparr>id_bm = generateId env, label = l, kind = k, target = tgt, fallback = fb,
                        meta = \<lparr>cwd = dir, host = hostname env,
                                lastUsed = now_lastUsed env, createdAt = now_createdAt env\<rparr>\<rparr>
                 in if int (length (items data)) \<le> index then
                      Inr (Some bookmark, write_file (data\<lparr>items := items data @ [bookmark]\<rparr>))
                    else
                      Inr (Some bookmark,
                        write_file (data\<lparr>items := (items data)[nat index := bookmark]\<rparr>)))))"

text \<open>
  \<open>move\<close>: the first \<open>splice\<close> takes the entry out, the second puts it in. The source
  returns \<open>false\<close> without writing when the first \<open>splice\<close> removed nothing.
\<close>

definition move :: "int \<Rightarrow> int \<Rightarrow> FileState \<Rightarrow> StoreError + bool \<times> FileState" where
  "move fromSlot toSlot fs =
     (case read fs of
        Inl e \<Rightarrow> Inl e
      | Inr data \<Rightarrow>
          (let fromIndex = fromSlot - 1;
               toIndex = toSlot - 1
           in if fromIndex < 0 \<or> fromIndex \<ge> int (length (items data)) \<or>
                 toIndex < 0 \<or> toIndex \<ge> int (length (items data))
              then Inr (False, fs)
              else
                (case splice_js (nat fromIndex) 1 [] (items data) of
                   ([], rest) \<Rightarrow> Inr (False, fs)
                 | (bookmark # others, rest) \<Rightarrow>
                     Inr (True,
                       write_file (data\<lparr>items := snd (splice_js (nat toIndex) 0 [bookmark] rest)\<rparr>)))))"

section \<open>Sample data\<close>

text \<open>
  The store's unit tests add bookmarks with
  \<open>store.add(label, "window", { sessionId: "$1" }, {})\<close>: \<open>stored i l\<close> is such a
  bookmark with identifier \<open>i\<close> and label \<open>l\<close>.
\<close>

definition stored :: "string \<Rightarrow> string \<Rightarrow> Bookmark" where
  "stored i l =
     \<lparr>id_bm = i, label = l, kind = Window,
      target = \<lparr>TmuxTarget.sessionId = Some ''$1'', windowId = None, paneId = None\<rparr>,
      fallback = \<lparr>TmuxFallback.sessionName = None, windowIndex = None, windowName = None,
                  paneIndex = None\<rparr>,
      meta = \<lparr>cwd = None, host = None, lastUsed = 0, createdAt = 0\<rparr>\<rparr>"

definition three_bookmarks :: "Bookmark list" where
  "three_bookmarks = [stored ''a'' ''first'', stored ''b'' ''second'', stored ''c'' ''third'']"

definition three_file :: FileState where
  "three_file = Parsed \<lparr>version = CURRENT_SCHEMA_VERSION, items = three_bookmarks\<rparr>"

text \<open>Two bookmarks with the same label, and a file written by a later schema.\<close>

definition twins_file :: FileState where
  "twins_file =
     Parsed \<lparr>version = CURRENT_SCHEMA_VERSION, items = [stored ''a'' ''dup'', stored ''b'' ''dup'']\<rparr>"

definition future_file :: BookmarksFile where
  "future_file = \<lparr>version = 2, items = [stored ''a'' ''first'']\<rparr>"

definition sample_env :: Env where
  "sample_env =
     \<lparr>generateId = ''3f0c'', hostname = Some ''devbox'', now_lastUsed = 1700000000,
      now_createdAt = 1700000000\<rparr>"

text \<open>The bookmark that \<open>replace\<close> mints in \<open>sample_env\<close> for the arguments of the tests.\<close>

definition minted :: "string \<Rightarrow> Bookmark" where
  "minted l =
     \<lparr>id_bm = generateId sample_env, label = l, kind = Window,
      target = target (stored [] []), fallback = fallback (stored [] []),
      meta = \<lparr>cwd = None, host = hostname sample_env,
              lastUsed = now_lastUsed sample_env, createdAt = now_createdAt sample_env\<rparr>\<rparr>"

text \<open>
  A live hierarchy: one session \<open>work\<close> with two windows, the second of which has the empty
  name, and one pane in that second window.
\<close>

definition work_session :: TmuxSession where
  "work_session =
     \<lparr>TmuxSession.sessionId = ''$7'', sessionName = ''work'', windowCount = 2,
      attached = True, created = 0\<rparr>"

definition editor_window :: TmuxWindow where
  "editor_window =
     \<lparr>TmuxWindow.windowId = ''@1'', windowIndex = 0, windowName = ''editor'',
      sessionId = ''$7'', sessionName = ''work'', active = False, paneCount = 1\<rparr>"

definition unnamed_window :: TmuxWindow where
  "unnamed_window =
     \<lparr>TmuxWindow.windowId = ''@2'', windowIndex = 1, windowName = [],
      sessionId = ''$7'', sessionName = ''work'', active = True, paneCount = 1\<rparr>"

definition shell_pane :: TmuxPane where
  "shell_pane =
     \<lparr>TmuxPane.paneId = ''%5'', paneIndex = 0, windowId = ''@2'', windowIndex = 1,
      windowName = [], sessionId = ''$7'', sessionName = ''work'', active = True,
      cwd = ''/srv/app'', currentCommand = ''zsh''\<rparr>"

definition live :: TmuxState where
  "live = \<lparr>sessions = [work_session], windows = [editor_window, unnamed_window],
           panes = [shell_pane]\<rparr>"

text \<open>A bookmark whose stable identifiers (\<open>$1\<close>, \<open>@9\<close>, \<open>%9\<close>) are not live.\<close>

definition stale :: "BookmarkKind \<Rightarrow> TmuxFallback \<Rightarrow> string option \<Rightarrow> Bookmark" where
  "stale k fb dir =
     \<lparr>id_bm = ''b1'', label = ''api'', kind = k,
      target = \<lparr>TmuxTarget.sessionId = Some ''$1'', windowId = Some ''@9'',
                paneId = Some ''%9''\<rparr>,
      fallback = fb,
      meta = \<lparr>cwd = dir, host = None, lastUsed = 0, createdAt = 0\<rparr>\<rparr>"

text \<open>
  Fallback descriptors: the session name alone; session and window name; a window name
  that no live window has, with the index of the second window; no session name; the
  empty window name, without and with a window index.
\<close>

definition work_fallback :: TmuxFallback where
  "work_fallback =
     \<lparr>TmuxFallback.sessionName = Some ''work'', windowIndex = None, windowName = None,
      paneIndex = None\<rparr>"

definition editor_fallback :: TmuxFallback where
  "editor_fallback =
     \<lparr>TmuxFallback.sessionName = Some ''work'', windowIndex = None,
      windowName = Some ''editor'', paneIndex = None\<rparr>"

definition renamed_fallback :: TmuxFallback where
  "renamed_fallback =
     \<lparr>TmuxFallback.sessionName = Some ''work'', windowIndex = Some 1,
      windowName = Some ''gone'', paneIndex = None\<rparr>"

definition nameless_fallback :: TmuxFallback where
  "nameless_fallback =
     \<lparr>TmuxFallback.sessionName = None, windowIndex = Some 0,
      windowName = Some ''editor'', paneIndex = None\<rparr>"

definition empty_name_fallback :: TmuxFallback where
  "empty_name_fallback =
     \<lparr>TmuxFallback.sessionName = Some ''work'', windowIndex = None,
      windowName = Some [], paneIndex = None\<rparr>"

definition empty_name_index_fallback :: TmuxFallback where
  "empty_name_index_fallback =
     \<lparr>TmuxFallback.sessionName = Some ''work'', windowIndex = Some 0,
      windowName = Some [], paneIndex = None\<rparr>"

section \<open>Reading and writing the file\<close>

lemma read_version: "read fs = Inr data \<Longrightarrow> version data = CURRENT_SCHEMA_VERSION"
  by (cases fs) (auto simp add: migrate_def split: if_splits)

lemma list_items_read:
  "list_items fs = Inr xs \<Longrightarrow> read fs = Inr \<lparr>version = CURRENT_SCHEMA_VERSION, items = xs\<rparr>"
proof -
  assume a: "list_items fs = Inr xs"
  then obtain data where d: "read fs = Inr data" and i: "items data = xs"
    by (auto simp add: list_items_def split: sum.splits)
  from d have "version data = CURRENT_SCHEMA_VERSION" by (rule read_version)
  with i have "data = \<lparr>version = CURRENT_SCHEMA_VERSION, items = xs\<rparr>" by (cases data) simp
  with d show ?thesis by simp
qed

lemma list_items_write:
  "list_items (write_file \<lparr>version = CURRENT_SCHEMA_VERSION, items = ys\<rparr>) = Inr ys"
  by (simp add: list_items_def write_file_def migrate_def)

lemma list_items_three: "list_items three_file = Inr three_bookmarks"
  by (simp add: list_items_def three_file_def migrate_def)

lemma list_items_twins: "list_items twins_file = Inr [stored ''a'' ''dup'', stored ''b'' ''dup'']"
  by (simp add: list_items_def twins_file_def migrate_def)

section \<open>Schema versions\<close>

text \<open>
  Claim C2, as amended. A file whose \<open>version\<close> is greater than the current schema version
  is not rejected: \<open>migrate\<close> takes the branch of every version other than the current one,
  so \<open>read\<close> returns the envelope with its items untouched and its version rewritten to
  the current one, and no error.
\<close>

theorem read_future_version_rewritten:
  "CURRENT_SCHEMA_VERSION < version f \<longrightarrow>
     migrate f = \<lparr>version = CURRENT_SCHEMA_VERSION, items = items f\<rparr> \<and>
     read (Parsed f) = Inr \<lparr>version = CURRENT_SCHEMA_VERSION, items = items f\<rparr>"
  by (cases f) (simp add: migrate_def)

theorem read_future_version_rewritten_witness:
  "CURRENT_SCHEMA_VERSION < version future_file \<and>
   migrate future_file = \<lparr>version = 1, items = [stored ''a'' ''first'']\<rparr> \<and>
   read (Parsed future_file) = Inr \<lparr>version = 1, items = [stored ''a'' ''first'']\<rparr>"
  using read_future_version_rewritten [of future_file]
  by (simp add: future_file_def CURRENT_SCHEMA_VERSION_def)

text \<open>
  The claim as it was stated fails on a file of version 2: it is read without an error,
  and what \<open>read\<close> returns carries version 1.
\<close>

theorem read_future_version_counterexample:
  "read (Parsed \<lparr>version = 2, items = [stored ''a'' ''first'']\<rparr>) =
     Inr \<lparr>version = 1, items = [stored ''a'' ''first'']\<rparr> \<and>
   read (Parsed \<lparr>version = 2, items = [stored ''a'' ''first'']\<rparr>) \<noteq> Inl PersistenceFailure \<and>
   version (migrate \<lparr>version = 2, items = [stored ''a'' ''first'']\<rparr>) < 2"
  by (simp add: migrate_def CURRENT_SCHEMA_VERSION_def)

section \<open>Lookups of the store\<close>

lemma getBySlot_value:
  "list_items fs = Inr xs \<Longrightarrow>
   getBySlot k fs =
     Inr (if 1 \<le> k \<and> k \<le> int (length xs) then Some (xs ! nat (k - 1)) else None)"
  by (drule list_items_read) (auto simp add: getBySlot_def Let_def)

text \<open>
  Claim C3, as amended. \<open>getByLabel\<close> returns the first bookmark, in sequence order, whose
  label is the one asked for (no earlier bookmark has that label); when no bookmark has
  the label it returns \<open>null\<close>.
\<close>

theorem getByLabel_first_match:
  assumes "list_items fs = Inr xs"
  shows "((\<exists>b \<in> set xs. label b = l) \<longrightarrow>
            (\<exists>i < length xs. getByLabel l fs = Inr (Some (xs ! i)) \<and> label (xs ! i) = l \<and>
               (\<forall>j < i. label (xs ! j) \<noteq> l))) \<and>
         ((\<forall>b \<in> set xs. label b \<noteq> l) \<longrightarrow> getByLabel l fs = Inr None)"
proof (intro conjI impI)
  have g: "getByLabel l fs = Inr (find (\<lambda>b. label b = l) xs)"
    using list_items_read [OF assms] by (simp add: getByLabel_def)
  {
    assume "\<exists>b \<in> set xs. label b = l"
    then have "find (\<lambda>b. label b = l) xs \<noteq> None" by (auto simp add: find_None_iff)
    then obtain x where "find (\<lambda>b. label b = l) xs = Some x" by auto
    then show "\<exists>i < length xs. getByLabel l fs = Inr (Some (xs ! i)) \<and> label (xs ! i) = l \<and>
               (\<forall>j < i. label (xs ! j) \<noteq> l)"
      using g by (auto simp add: find_Some_iff)
  }
  {
    assume "\<forall>b \<in> set xs. label b \<noteq> l"
    then have "find (\<lambda>b. label b = l) xs = None" by (auto simp add: find_None_iff)
    then show "getByLabel l fs = Inr None" using g by simp
  }
qed

theorem getByLabel_first_match_witness:
  "list_items three_file = Inr three_bookmarks \<and>
   (\<exists>i < length three_bookmarks.
      getByLabel ''second'' three_file = Inr (Some (three_bookmarks ! i)) \<and>
      label (three_bookmarks ! i) = ''second'' \<and>
      (\<forall>j < i. label (three_bookmarks ! j) \<noteq> ''second'')) \<and>
   getByLabel ''fourth'' three_file = Inr None"
  using getByLabel_first_match [OF list_items_three, of "''second''"]
    getByLabel_first_match [OF list_items_three, of "''fourth''"]
  by (simp add: list_items_three three_bookmarks_def stored_def)

text \<open>
  With two bookmarks of the same label the one returned is the first, not the last.
\<close>

theorem getByLabel_last_match_counterexample:
  "list_items twins_file = Inr [stored ''a'' ''dup'', stored ''b'' ''dup''] \<and>
   getByLabel ''dup'' twins_file = Inr (Some (stored ''a'' ''dup'')) \<and>
   label (stored ''b'' ''dup'') = ''dup'' \<and>
   stored ''a'' ''dup'' \<noteq> stored ''b'' ''dup''"
proof -
  have "getByLabel ''dup'' twins_file = Inr (Some (stored ''a'' ''dup''))"
    by (simp add: getByLabel_def twins_file_def migrate_def stored_def)
  moreover have "label (stored ''b'' ''dup'') = ''dup''"
    and "stored ''a'' ''dup'' \<noteq> stored ''b'' ''dup''"
    by (simp_all add: stored_def)
  ultimately show ?thesis
    using list_items_twins by simp
qed

text \<open>
  Claim C6. For a store that holds the sequence \<open>xs\<close>, \<open>getBySlot k\<close> returns the bookmark
  at position \<open>k - 1\<close> when \<open>1 \<le> k \<le> length xs\<close>, and \<open>null\<close> for every other \<open>k\<close>; it
  returns a value, not an error, in both cases.
\<close>

theorem getBySlot_slot_invariant:
  "list_items fs = Inr xs \<Longrightarrow>
   getBySlot k fs =
     Inr (if 1 \<le> k \<and> k \<le> int (length xs) then Some (xs ! nat (k - 1)) else None)"
  by (rule getBySlot_value)

theorem getBySlot_slot_invariant_witness:
  "list_items three_file = Inr three_bookmarks \<and>
   getBySlot 1 three_file = Inr (Some (stored ''a'' ''first'')) \<and>
   getBySlot 3 three_file = Inr (Some (stored ''c'' ''third'')) \<and>
   getBySlot 0 three_file = Inr None \<and>
   getBySlot 4 three_file = Inr None \<and>
   getBySlot (- 2) three_file = Inr None"
  using getBySlot_slot_invariant [OF list_items_three, of 1]
    getBySlot_slot_invariant [OF list_items_three, of 3]
    getBySlot_slot_invariant [OF list_items_three, of 0]
    getBySlot_slot_invariant [OF list_items_three, of 4]
    getBySlot_slot_invariant [OF list_items_three, of "- 2"]
  by (simp add: list_items_three three_bookmarks_def)

section \<open>Removing, replacing and moving by slot\<close>

lemma removeBySlot_in_range:
  assumes "list_items fs = Inr xs" and "1 \<le> k" and "k \<le> int (length xs)"
  shows "removeBySlot k fs =
     Inr (True, write_file \<lparr>version = CURRENT_SCHEMA_VERSION,
                  items = take (nat (k - 1)) xs @ drop (nat k) xs\<rparr>)"
  using assms(2,3) list_items_read [OF assms(1)]
  by (auto simp add: removeBySlot_def Let_def splice_js_def nat_diff_distrib)

lemma removeBySlot_out_of_range:
  assumes "list_items fs = Inr xs" and "\<not> (1 \<le> k \<and> k \<le> int (length xs))"
  shows "removeBySlot k fs = Inr (False, fs)"
  using assms(2) list_items_read [OF assms(1)]
  by (auto simp add: removeBySlot_def Let_def)

lemma nth_take_drop_shift:
  assumes "n < length xs"
  shows "(take n xs @ drop (Suc n) xs) ! j = (if j < n then xs ! j else xs ! Suc j)"
  using assms by (auto simp add: nth_append min_def)

text \<open>
  Claim C7. For a store that holds the sequence \<open>xs\<close>: with \<open>1 \<le> k \<le> length xs\<close>,
  \<open>removeBySlot k\<close> returns \<open>true\<close> and leaves \<open>xs\<close> without its entry at slot \<open>k\<close>, so that
  every slot below \<open>k\<close> holds what it held and every slot \<open>j \<ge> k\<close> holds what slot \<open>j + 1\<close>
  held; with any other \<open>k\<close> it returns \<open>false\<close> and the file is as it was. From the
  labels \<open>first\<close>, \<open>second\<close>, \<open>third\<close>, \<open>removeBySlot 2\<close> leaves \<open>first\<close>, \<open>third\<close>, and
  \<open>getBySlot 2\<close> is then the bookmark that was labelled \<open>third\<close>.
\<close>

theorem removeBySlot_deletes_and_shifts:
  assumes "list_items fs = Inr xs"
  shows "(1 \<le> k \<and> k \<le> int (length xs) \<longrightarrow>
           (\<exists>fs'. removeBySlot k fs = Inr (True, fs') \<and>
              list_items fs' = Inr (take (nat (k - 1)) xs @ drop (nat k) xs) \<and>
              (\<forall>j. getBySlot j fs' =
                     (if j < k then getBySlot j fs else getBySlot (j + 1) fs)))) \<and>
         (\<not> (1 \<le> k \<and> k \<le> int (length xs)) \<longrightarrow> removeBySlot k fs = Inr (False, fs)) \<and>
         (map label xs = [''first'', ''second'', ''third''] \<longrightarrow>
           (\<exists>fs' ys. removeBySlot 2 fs = Inr (True, fs') \<and> list_items fs' = Inr ys \<and>
              map label ys = [''first'', ''third''] \<and>
              getBySlot 2 fs' = Inr (Some (xs ! 2)) \<and> label (xs ! 2) = ''third''))"
proof (intro conjI impI)
  assume r: "1 \<le> k \<and> k \<le> int (length xs)"
  let ?ys = "take (nat (k - 1)) xs @ drop (nat k) xs"
  let ?fs' = "write_file \<lparr>version = CURRENT_SCHEMA_VERSION, items = ?ys\<rparr>"
  have 1: "removeBySlot k fs = Inr (True, ?fs')"
    using assms r by (simp add: removeBySlot_in_range)
  have 2: "list_items ?fs' = Inr ?ys" by (rule list_items_write)
  have n: "nat (k - 1) < length xs" and sk: "nat k = Suc (nat (k - 1))" using r by auto
  have 3: "getBySlot j ?fs' = (if j < k then getBySlot j fs else getBySlot (j + 1) fs)" for j
  proof -
    have len: "int (length ?ys) = int (length xs) - 1" using r by auto
    show ?thesis
    proof (cases "1 \<le> j \<and> j \<le> int (length ?ys)")
      case True
      then have "?ys ! nat (j - 1) =
          (if nat (j - 1) < nat (k - 1) then xs ! nat (j - 1) else xs ! Suc (nat (j - 1)))"
        using nth_take_drop_shift [OF n, of "nat (j - 1)"] sk by simp
      moreover have "Suc (nat (j - 1)) = nat j" using True by auto
      ultimately show ?thesis
        using True len r
        by (auto simp add: getBySlot_value [OF 2] getBySlot_value [OF assms])
    next
      case False
      then show ?thesis
        using len r
        by (auto simp add: getBySlot_value [OF 2] getBySlot_value [OF assms])
    qed
  qed
  from 1 2 3 show "\<exists>fs'. removeBySlot k fs = Inr (True, fs') \<and>
              list_items fs' = Inr (take (nat (k - 1)) xs @ drop (nat k) xs) \<and>
              (\<forall>j. getBySlot j fs' =
                     (if j < k then getBySlot j fs else getBySlot (j + 1) fs))"
    by blast
next
  assume "\<not> (1 \<le> k \<and> k \<le> int (length xs))"
  then show "removeBySlot k fs = Inr (False, fs)"
    using assms by (simp add: removeBySlot_out_of_range)
next
  assume l: "map label xs = [''first'', ''second'', ''third'']"
  then obtain a b c where xs: "xs = [a, b, c]" by auto
  let ?fs' = "write_file \<lparr>version = CURRENT_SCHEMA_VERSION, items = [a, c]\<rparr>"
  have 1: "removeBySlot 2 fs = Inr (True, ?fs')"
    using removeBySlot_in_range [OF assms, of 2] xs by simp
  have 2: "list_items ?fs' = Inr [a, c]" by (rule list_items_write)
  have 3: "getBySlot 2 ?fs' = Inr (Some (xs ! 2))"
    using getBySlot_value [OF 2, of 2] xs by simp
  from 1 2 3 l xs show "\<exists>fs' ys. removeBySlot 2 fs = Inr (True, fs') \<and> list_items fs' = Inr ys \<and>
              map label ys = [''first'', ''third''] \<and>
              getBySlot 2 fs' = Inr (Some (xs ! 2)) \<and> label (xs ! 2) = ''third''"
    by auto
qed

theorem removeBySlot_deletes_and_shifts_witness:
  "list_items three_file = Inr three_bookmarks \<and>
   map label three_bookmarks = [''first'', ''second'', ''third''] \<and>
   (\<exists>fs' ys. removeBySlot 2 three_file = Inr (True, fs') \<and> list_items fs' = Inr ys \<and>
      map label ys = [''first'', ''third''] \<and>
      getBySlot 2 fs' = Inr (Some (stored ''c'' ''third''))) \<and>
   removeBySlot 0 three_file = Inr (False, three_file) \<and>
   removeBySlot 5 three_file = Inr (False, three_file)"
proof -
  have l: "map label three_bookmarks = [''first'', ''second'', ''third'']"
    by (simp add: three_bookmarks_def stored_def)
  have n: "three_bookmarks ! 2 = stored ''c'' ''third''"
    by (simp add: three_bookmarks_def)
  have len: "length three_bookmarks = 3"
    by (simp add: three_bookmarks_def)
  from removeBySlot_deletes_and_shifts [OF list_items_three, of 0]
    removeBySlot_deletes_and_shifts [OF list_items_three, of 5]
  show ?thesis
    using l n len list_items_three by auto
qed

text \<open>
  Claim C4, as amended. For a store that holds the sequence \<open>xs\<close>, \<open>replace\<close> returns
  \<open>null\<close> exactly when the slot is not positive, and the file is then as it was. For a
  positive slot it mints a bookmark \<open>b\<close> (the generated identifier, the given label, kind,
  target, fallback and working directory, the current time as \<open>lastUsed\<close> and
  \<open>createdAt\<close>) and returns it. When \<open>slot \<le> length xs\<close> the new sequence is \<open>xs\<close> with
  \<open>b\<close> at position \<open>slot - 1\<close> and every other entry as it was, so \<open>b\<close> is at the slot
  asked for. When \<open>slot > length xs\<close> the bookmark is appended: the new sequence is \<open>xs\<close>
  followed by \<open>b\<close>, and \<open>b\<close> is at slot \<open>length xs + 1\<close>. That is the slot asked for
  when \<open>slot = length xs + 1\<close>; when \<open>slot > length xs + 1\<close> the slot asked for holds
  nothing.
\<close>

theorem replace_slot:
  assumes "list_items fs = Inr xs"
    and "b = \<lparr>id_bm = generateId env, label = l, kind = k, target = tgt, fallback = fb,
               meta = \<lparr>cwd = dir, host = hostname env,
                       lastUsed = now_lastUsed env, createdAt = now_createdAt env\<rparr>\<rparr>"
  shows "(slot \<le> 0 \<longrightarrow> replace slot l k tgt fb dir env fs = Inr (None, fs)) \<and>
         (1 \<le> slot \<and> slot \<le> int (length xs) \<longrightarrow>
            (\<exists>fs'. replace slot l k tgt fb dir env fs = Inr (Some b, fs') \<and>
               list_items fs' = Inr (xs[nat (slot - 1) := b]) \<and>
               getBySlot slot fs' = Inr (Some b))) \<and>
         (int (length xs) < slot \<longrightarrow>
            (\<exists>fs'. replace slot l k tgt fb dir env fs = Inr (Some b, fs') \<and>
               list_items fs' = Inr (xs @ [b]) \<and>
               getBySlot (int (length xs) + 1) fs' = Inr (Some b) \<and>
               getBySlot slot fs' =
                 Inr (if slot = int (length xs) + 1 then Some b else None))) \<and>
         ((\<exists>fs'. replace slot l k tgt fb dir env fs = Inr (None, fs')) \<longleftrightarrow> slot \<le> 0)"
proof -
  note rd = list_items_read [OF assms(1)]
  have 1: "slot \<le> 0 \<Longrightarrow> replace slot l k tgt fb dir env fs = Inr (None, fs)"
    using rd by (simp add: replace_def Let_def)
  have 2: "1 \<le> slot \<and> slot \<le> int (length xs) \<Longrightarrow>
      replace slot l k tgt fb dir env fs =
        Inr (Some b, write_file \<lparr>version = CURRENT_SCHEMA_VERSION, items = xs[nat (slot - 1) := b]\<rparr>)"
    using rd assms(2) by (simp add: replace_def Let_def)
  have 3: "int (length xs) < slot \<Longrightarrow>
      replace slot l k tgt fb dir env fs =
        Inr (Some b, write_file \<lparr>version = CURRENT_SCHEMA_VERSION, items = xs @ [b]\<rparr>)"
    using rd assms(2) by (simp add: replace_def Let_def)
  have 4: "(\<exists>fs'. replace slot l k tgt fb dir env fs = Inr (None, fs')) \<longleftrightarrow> slot \<le> 0"
  proof (cases "slot \<le> 0")
    case True
    then show ?thesis using 1 by simp
  next
    case False
    then have "1 \<le> slot \<and> slot \<le> int (length xs) \<or> int (length xs) < slot" by auto
    then show ?thesis using 2 3 False by auto
  qed
  have 5: "1 \<le> slot \<and> slot \<le> int (length xs) \<Longrightarrow>
      getBySlot slot (write_file \<lparr>version = CURRENT_SCHEMA_VERSION,
        items = xs[nat (slot - 1) := b]\<rparr>) = Inr (Some b)"
    using getBySlot_value [OF list_items_write [of "xs[nat (slot - 1) := b]"], of slot] by auto
  have 6: "getBySlot (int (length xs) + 1)
      (write_file \<lparr>version = CURRENT_SCHEMA_VERSION, items = xs @ [b]\<rparr>) = Inr (Some b)"
    using getBySlot_value [OF list_items_write [of "xs @ [b]"], of "int (length xs) + 1"]
    by (simp add: nat_add_distrib)
  have 7: "int (length xs) < slot \<Longrightarrow>
      getBySlot slot (write_file \<lparr>version = CURRENT_SCHEMA_VERSION, items = xs @ [b]\<rparr>) =
        Inr (if slot = int (length xs) + 1 then Some b else None)"
    using getBySlot_value [OF list_items_write [of "xs @ [b]"], of slot] 6 by auto
  show ?thesis
  proof (intro conjI impI)
    assume "slot \<le> 0"
    then show "replace slot l k tgt fb dir env fs = Inr (None, fs)" by (rule 1)
  next
    assume r: "1 \<le> slot \<and> slot \<le> int (length xs)"
    from 2 [OF r] 5 [OF r] list_items_write [of "xs[nat (slot - 1) := b]"]
    show "\<exists>fs'. replace slot l k tgt fb dir env fs = Inr (Some b, fs') \<and>
               list_items fs' = Inr (xs[nat (slot - 1) := b]) \<and>
               getBySlot slot fs' = Inr (Some b)"
      by blast
  next
    assume r: "int (length xs) < slot"
    from 3 [OF r] 6 7 [OF r] list_items_write [of "xs @ [b]"]
    show "\<exists>fs'. replace slot l k tgt fb dir env fs = Inr (Some b, fs') \<and>
               list_items fs' = Inr (xs @ [b]) \<and>
               getBySlot (int (length xs) + 1) fs' = Inr (Some b) \<and>
               getBySlot slot fs' =
                 Inr (if slot = int (length xs) + 1 then Some b else None)"
      by blast
  next
    show "(\<exists>fs'. replace slot l k tgt fb dir env fs = Inr (None, fs')) \<longleftrightarrow> slot \<le> 0"
      by (rule 4)
  qed
qed

theorem replace_slot_witness:
  "list_items three_file = Inr three_bookmarks \<and>
   (\<exists>fs'. replace 2 ''new'' Window (target (stored [] [])) (fallback (stored [] [])) None
             sample_env three_file = Inr (Some (minted ''new''), fs') \<and>
      list_items fs' = Inr [stored ''a'' ''first'', minted ''new'', stored ''c'' ''third''] \<and>
      getBySlot 2 fs' = Inr (Some (minted ''new''))) \<and>
   (\<exists>fs'. replace 4 ''new'' Window (target (stored [] [])) (fallback (stored [] [])) None
             sample_env three_file = Inr (Some (minted ''new''), fs') \<and>
      list_items fs' =
        Inr [stored ''a'' ''first'', stored ''b'' ''second'', stored ''c'' ''third'',
             minted ''new''] \<and>
      getBySlot 4 fs' = Inr (Some (minted ''new''))) \<and>
   (\<exists>fs'. replace 7 ''new'' Window (target (stored [] [])) (fallback (stored [] [])) None
             sample_env three_file = Inr (Some (minted ''new''), fs') \<and>
      list_items fs' =
        Inr [stored ''a'' ''first'', stored ''b'' ''second'', stored ''c'' ''third'',
             minted ''new''] \<and>
      getBySlot 4 fs' = Inr (Some (minted ''new'')) \<and>
      getBySlot 7 fs' = Inr None) \<and>
   replace 0 ''new'' Window (target (stored [] [])) (fallback (stored [] [])) None
     sample_env three_file = Inr (None, three_file)"
proof -
  have m: "minted ''new'' =
      \<lparr>id_bm = generateId sample_env, label = ''new'', kind = Window,
       target = target (stored [] []), fallback = fallback (stored [] []),
       meta = \<lparr>cwd = None, host = hostname sample_env,
               lastUsed = now_lastUsed sample_env, createdAt = now_createdAt sample_env\<rparr>\<rparr>"
    by (simp add: minted_def)
  have len: "length three_bookmarks = 3"
    by (simp add: three_bookmarks_def)
  have upd: "three_bookmarks[Suc 0 := minted ''new''] =
      [stored ''a'' ''first'', minted ''new'', stored ''c'' ''third'']"
    and app: "three_bookmarks @ [minted ''new''] =
      [stored ''a'' ''first'', stored ''b'' ''second'', stored ''c'' ''third'', minted ''new'']"
    by (simp_all add: three_bookmarks_def)
  from replace_slot [OF list_items_three m, of 2] replace_slot [OF list_items_three m, of 4]
    replace_slot [OF list_items_three m, of 7] replace_slot [OF list_items_three m, of 0]
  show ?thesis
    using len upd app list_items_three by simp
qed

text \<open>
  The claim as it was stated fails for a slot more than one beyond the end: asked for
  slot 7 of a store of three bookmarks, \<open>replace\<close> appends, the minted bookmark is at
  slot 4, and slot 7 holds nothing.
\<close>

theorem replace_beyond_end_counterexample:
  "replace 7 ''new'' Window (target (stored [] [])) (fallback (stored [] [])) None
     sample_env three_file =
     Inr (Some (minted ''new''),
          Parsed \<lparr>version = CURRENT_SCHEMA_VERSION, items = three_bookmarks @ [minted ''new'']\<rparr>) \<and>
   getBySlot 7
     (Parsed \<lparr>version = CURRENT_SCHEMA_VERSION, items = three_bookmarks @ [minted ''new'']\<rparr>) =
     Inr None \<and>
   getBySlot 4
     (Parsed \<lparr>version = CURRENT_SCHEMA_VERSION, items = three_bookmarks @ [minted ''new'']\<rparr>) =
     Inr (Some (minted ''new''))"
proof -
  have len: "length three_bookmarks = 3"
    by (simp add: three_bookmarks_def)
  have "replace 7 ''new'' Window (target (stored [] [])) (fallback (stored [] [])) None
     sample_env three_file =
     Inr (Some (minted ''new''),
          Parsed \<lparr>version = CURRENT_SCHEMA_VERSION, items = three_bookmarks @ [minted ''new'']\<rparr>)"
    by (simp add: replace_def three_file_def migrate_def write_file_def Let_def minted_def len)
  moreover have "getBySlot 7
     (Parsed \<lparr>version = CURRENT_SCHEMA_VERSION, items = three_bookmarks @ [minted ''new'']\<rparr>) =
     Inr None"
    by (simp add: getBySlot_def migrate_def Let_def len)
  moreover have "getBySlot 4
     (Parsed \<lparr>version = CURRENT_SCHEMA_VERSION, items = three_bookmarks @ [minted ''new'']\<rparr>) =
     Inr (Some (minted ''new''))"
    by (simp add: getBySlot_def migrate_def Let_def len nth_append)
  ultimately show ?thesis by simp
qed

lemma splice_take_out:
  assumes "n < length xs"
  shows "splice_js n 1 [] xs = ([xs ! n], take n xs @ drop (Suc n) xs)"
  using Cons_nth_drop_Suc [OF assms, symmetric] by (simp add: splice_js_def)

lemma splice_put_in:
  "snd (splice_js n 0 [x] ys) = take n ys @ x # drop n ys"
  by (simp add: splice_js_def)

lemma mset_take_out:
  assumes "n < length xs"
  shows "mset (take n xs @ drop (Suc n) xs) + {#xs ! n#} = mset xs"
proof -
  have "mset xs = mset (take n xs @ xs ! n # drop (Suc n) xs)"
    using id_take_nth_drop [OF assms] by simp
  then show ?thesis by simp
qed

lemma move_in_range:
  assumes "list_items fs = Inr xs"
    and "1 \<le> fromSlot" "fromSlot \<le> int (length xs)" "1 \<le> toSlot" "toSlot \<le> int (length xs)"
  shows "move fromSlot toSlot fs =
     Inr (True, write_file \<lparr>version = CURRENT_SCHEMA_VERSION,
        items = take (nat (toSlot - 1)) (take (nat (fromSlot - 1)) xs @ drop (nat fromSlot) xs)
                @ xs ! nat (fromSlot - 1)
                # drop (nat (toSlot - 1)) (take (nat (fromSlot - 1)) xs @ drop (nat fromSlot) xs)\<rparr>)"
proof -
  have n: "nat (fromSlot - 1) < length xs" and s: "Suc (nat (fromSlot - 1)) = nat fromSlot"
    using assms(2,3) by auto
  show ?thesis
    using assms(2-5) list_items_read [OF assms(1)] splice_take_out [OF n] s
    by (simp add: move_def Let_def splice_put_in del: take_append drop_append)
qed

text \<open>
  Claim C5. For a store that holds the sequence \<open>xs\<close>: when both slots are between 1 and
  \<open>length xs\<close>, \<open>move\<close> returns \<open>true\<close> and the sequence \<open>ys\<close> it leaves is a permutation
  of \<open>xs\<close> (the same multiset of bookmarks, hence of identifiers) in which position
  \<open>toSlot\<close> holds what position \<open>fromSlot\<close> held; when a slot is out of range it returns
  \<open>false\<close> and the file is as it was.
\<close>

theorem move_is_permutation:
  assumes "list_items fs = Inr xs"
  shows "(1 \<le> fromSlot \<and> fromSlot \<le> int (length xs) \<and> 1 \<le> toSlot \<and> toSlot \<le> int (length xs) \<longrightarrow>
           (\<exists>fs' ys. move fromSlot toSlot fs = Inr (True, fs') \<and> list_items fs' = Inr ys \<and>
              mset (map id_bm ys) = mset (map id_bm xs) \<and> mset ys = mset xs \<and>
              ys ! nat (toSlot - 1) = xs ! nat (fromSlot - 1))) \<and>
         (\<not> (1 \<le> fromSlot \<and> fromSlot \<le> int (length xs) \<and> 1 \<le> toSlot \<and> toSlot \<le> int (length xs)) \<longrightarrow>
           move fromSlot toSlot fs = Inr (False, fs))"
proof (intro conjI impI)
  assume r: "1 \<le> fromSlot \<and> fromSlot \<le> int (length xs) \<and> 1 \<le> toSlot \<and> toSlot \<le> int (length xs)"
  define f where "f = nat (fromSlot - 1)"
  define t where "t = nat (toSlot - 1)"
  define rest where "rest = take f xs @ drop (Suc f) xs"
  define ys where "ys = take t rest @ xs ! f # drop t rest"
  have f: "f < length xs" and t: "t < length xs" and sf: "Suc f = nat fromSlot"
    using r by (auto simp add: f_def t_def)
  have lr: "length rest = length xs - 1" using f by (auto simp add: rest_def)
  have tl: "t \<le> length rest" using t lr by simp
  have mv: "move fromSlot toSlot fs =
      Inr (True, write_file \<lparr>version = CURRENT_SCHEMA_VERSION, items = ys\<rparr>)"
    using move_in_range [OF assms, of fromSlot toSlot] r
    by (simp add: ys_def rest_def f_def t_def sf [unfolded f_def])
  have split: "mset (take t rest) + mset (drop t rest) = mset rest"
    by (metis append_take_drop_id mset_append)
  have "mset ys = mset (take t rest) + mset (drop t rest) + {#xs ! f#}"
    by (simp add: ys_def)
  also have "\<dots> = mset rest + {#xs ! f#}"
    by (simp only: split)
  also have "\<dots> = mset xs"
    unfolding rest_def by (rule mset_take_out [OF f])
  finally have ms: "mset ys = mset xs" .
  then have mi: "mset (map id_bm ys) = mset (map id_bm xs)"
    by (metis mset_map)
  have nth: "ys ! t = xs ! f"
    using tl by (simp add: ys_def nth_append)
  from mv ms mi nth list_items_write [of ys]
  show "\<exists>fs' ys. move fromSlot toSlot fs = Inr (True, fs') \<and> list_items fs' = Inr ys \<and>
              mset (map id_bm ys) = mset (map id_bm xs) \<and> mset ys = mset xs \<and>
              ys ! nat (toSlot - 1) = xs ! nat (fromSlot - 1)"
    unfolding f_def t_def by blast
next
  assume "\<not> (1 \<le> fromSlot \<and> fromSlot \<le> int (length xs) \<and> 1 \<le> toSlot \<and> toSlot \<le> int (length xs))"
  then show "move fromSlot toSlot fs = Inr (False, fs)"
    using list_items_read [OF assms] by (auto simp add: move_def Let_def)
qed

theorem move_is_permutation_witness:
  "list_items three_file = Inr three_bookmarks \<and>
   (\<exists>fs' ys. move 1 3 three_file = Inr (True, fs') \<and> list_items fs' = Inr ys \<and>
      mset (map id_bm ys) = mset (map id_bm three_bookmarks) \<and> mset ys = mset three_bookmarks \<and>
      ys ! 2 = stored ''a'' ''first'') \<and>
   move 0 1 three_file = Inr (False, three_file) \<and>
   move 1 5 three_file = Inr (False, three_file) \<and>
   move 5 1 three_file = Inr (False, three_file)"
proof -
  have len: "length three_bookmarks = 3" and hd: "three_bookmarks ! 0 = stored ''a'' ''first''"
    by (simp_all add: three_bookmarks_def)
  from move_is_permutation [OF list_items_three, of 1 3]
    move_is_permutation [OF list_items_three, of 0 1]
    move_is_permutation [OF list_items_three, of 1 5]
    move_is_permutation [OF list_items_three, of 5 1]
  show ?thesis
    using len hd list_items_three by simp
qed

section \<open>Renaming\<close>

lemma assign_found_nth:
  "find P xs = Some x \<Longrightarrow>
     \<exists>n < length xs. xs ! n = x \<and> P x \<and> (\<forall>j < n. \<not> P (xs ! j)) \<and> assign_found P f xs = xs[n := f x]"
proof (induction xs)
  case Nil
  then show ?case by simp
next
  case (Cons a xs)
  show ?case
  proof (cases "P a")
    case True
    with Cons.prems have "a = x" by simp
    with True show ?thesis by (intro exI [of _ 0]) simp
  next
    case False
    with Cons.prems have "find P xs = Some x" by simp
    from Cons.IH [OF this] obtain n where n: "n < length xs" "xs ! n = x" "P x"
      "\<forall>j < n. \<not> P (xs ! j)" "assign_found P f xs = xs[n := f x]" by blast
    have "\<forall>j < Suc n. \<not> P ((a # xs) ! j)"
      using n(4) False by (auto simp add: nth_Cons split: nat.splits)
    with n False show ?thesis by (intro exI [of _ "Suc n"]) simp
  qed
qed

text \<open>
  Claim C9. For a store that holds the sequence \<open>xs\<close>: when some bookmark has the
  identifier \<open>i\<close>, \<open>rename i newLabel\<close> returns \<open>true\<close> and the sequence it leaves is \<open>xs\<close>
  with one entry changed, the first one whose identifier is \<open>i\<close>, at its own position
  \<open>n\<close>, and that entry differs from the old one in its label only (its identifier, kind,
  target, fallback and meta are the old ones); every other entry and the length are as
  they were. When no bookmark has the identifier it returns \<open>false\<close> and the file is as it
  was.
\<close>

theorem rename_changes_only_label:
  assumes "list_items fs = Inr xs"
  shows "(i \<in> id_bm ` set xs \<longrightarrow>
           (\<exists>fs' n. rename i newLabel fs = Inr (True, fs') \<and> n < length xs \<and>
              id_bm (xs ! n) = i \<and> (\<forall>j < n. id_bm (xs ! j) \<noteq> i) \<and>
              list_items fs' = Inr (xs[n := (xs ! n)\<lparr>label := newLabel\<rparr>]))) \<and>
         (i \<notin> id_bm ` set xs \<longrightarrow> rename i newLabel fs = Inr (False, fs))"
proof (intro conjI impI)
  note rd = list_items_read [OF assms]
  {
    assume "i \<in> id_bm ` set xs"
    then have "find (\<lambda>b. id_bm b = i) xs \<noteq> None" by (auto simp add: find_None_iff)
    then obtain x where x: "find (\<lambda>b. id_bm b = i) xs = Some x" by auto
    from assign_found_nth [OF this, of "\<lambda>b. b\<lparr>label := newLabel\<rparr>"]
    obtain n where n: "n < length xs" "xs ! n = x" "id_bm x = i" "\<forall>j < n. id_bm (xs ! j) \<noteq> i"
      "assign_found (\<lambda>b. id_bm b = i) (\<lambda>b. b\<lparr>label := newLabel\<rparr>) xs = xs[n := x\<lparr>label := newLabel\<rparr>]"
      by blast
    have "rename i newLabel fs = Inr (True, write_file \<lparr>version = CURRENT_SCHEMA_VERSION,
        items = xs[n := (xs ! n)\<lparr>label := newLabel\<rparr>]\<rparr>)"
      using rd x n(2,5) by (simp add: rename_def)
    with n list_items_write
    show "\<exists>fs' n. rename i newLabel fs = Inr (True, fs') \<and> n < length xs \<and>
              id_bm (xs ! n) = i \<and> (\<forall>j < n. id_bm (xs ! j) \<noteq> i) \<and>
              list_items fs' = Inr (xs[n := (xs ! n)\<lparr>label := newLabel\<rparr>])"
      by blast
  }
  {
    assume "i \<notin> id_bm ` set xs"
    then have "find (\<lambda>b. id_bm b = i) xs = None" by (auto simp add: find_None_iff)
    then show "rename i newLabel fs = Inr (False, fs)"
      using rd by (simp add: rename_def)
  }
qed

theorem rename_changes_only_label_witness:
  "list_items three_file = Inr three_bookmarks \<and>
   ''b'' \<in> id_bm ` set three_bookmarks \<and>
   (\<exists>fs' n. rename ''b'' ''renamed'' three_file = Inr (True, fs') \<and> n < length three_bookmarks \<and>
      id_bm (three_bookmarks ! n) = ''b'' \<and> (\<forall>j < n. id_bm (three_bookmarks ! j) \<noteq> ''b'') \<and>
      list_items fs' =
        Inr (three_bookmarks[n := (three_bookmarks ! n)\<lparr>label := ''renamed''\<rparr>])) \<and>
   ''z'' \<notin> id_bm ` set three_bookmarks \<and>
   rename ''z'' ''renamed'' three_file = Inr (False, three_file)"
proof -
  have b: "''b'' \<in> id_bm ` set three_bookmarks" and z: "''z'' \<notin> id_bm ` set three_bookmarks"
    by (simp_all add: three_bookmarks_def stored_def)
  from rename_changes_only_label [OF list_items_three, of "''b''" "''renamed''"]
    rename_changes_only_label [OF list_items_three, of "''z''" "''renamed''"]
  show ?thesis
    using b z list_items_three by blast
qed

section \<open>The tiers of the resolver\<close>

lemma fallback_session:
  assumes "kind b = Session" "TmuxFallback.sessionName (fallback b) = Some sn" "sn \<noteq> []"
    "findSessionByName st sn = Some s"
  shows "tryResolveByFallback b st =
     Some \<lparr>TmuxTarget.sessionId = Some (TmuxSession.sessionId s), windowId = None, paneId = None\<rparr>"
  using assms by (simp add: tryResolveByFallback_def truthy_def Let_def)

lemma fallback_no_session:
  assumes "\<forall>sn. TmuxFallback.sessionName (fallback b) = Some sn \<and> sn \<noteq> [] \<longrightarrow> findSessionByName st sn = None"
  shows "tryResolveByFallback b st = None"
  using assms by (cases "TmuxFallback.sessionName (fallback b)")
    (auto simp add: tryResolveByFallback_def truthy_def Let_def)

lemma fallback_by_name:
  assumes "kind b \<noteq> Session" "TmuxFallback.sessionName (fallback b) = Some sn" "sn \<noteq> []"
    "findSessionByName st sn = Some s"
    "TmuxFallback.windowName (fallback b) = Some wn" "wn \<noteq> []"
    "findWindowByName st (TmuxSession.sessionId s) wn = Some w"
  shows "tryResolveByFallback b st =
     Some \<lparr>TmuxTarget.sessionId = Some (TmuxSession.sessionId s),
           windowId = Some (TmuxWindow.windowId w), paneId = None\<rparr>"
  using assms by (cases "kind b") (simp_all add: tryResolveByFallback_def truthy_def Let_def)

lemma fallback_by_index:
  assumes "kind b \<noteq> Session" "TmuxFallback.sessionName (fallback b) = Some sn" "sn \<noteq> []"
    "findSessionByName st sn = Some s"
    "\<forall>wn. TmuxFallback.windowName (fallback b) = Some wn \<and> wn \<noteq> [] \<longrightarrow>
       findWindowByName st (TmuxSession.sessionId s) wn = None"
    "TmuxFallback.windowIndex (fallback b) = Some i"
    "findWindowByIndex st (TmuxSession.sessionId s) i = Some w"
  shows "tryResolveByFallback b st =
     Some \<lparr>TmuxTarget.sessionId = Some (TmuxSession.sessionId s),
           windowId = Some (TmuxWindow.windowId w), paneId = None\<rparr>"
  using assms by (cases "kind b"; cases "TmuxFallback.windowName (fallback b)")
    (simp_all add: tryResolveByFallback_def truthy_def Let_def)

lemma fallback_no_window:
  assumes "kind b \<noteq> Session" "TmuxFallback.sessionName (fallback b) = Some sn" "sn \<noteq> []"
    "findSessionByName st sn = Some s"
    "\<forall>wn. TmuxFallback.windowName (fallback b) = Some wn \<and> wn \<noteq> [] \<longrightarrow>
       findWindowByName st (TmuxSession.sessionId s) wn = None"
    "\<forall>i. TmuxFallback.windowIndex (fallback b) = Some i \<longrightarrow>
       findWindowByIndex st (TmuxSession.sessionId s) i = None"
  shows "tryResolveByFallback b st = None"
  using assms by (cases "kind b"; cases "TmuxFallback.windowName (fallback b)";
      cases "TmuxFallback.windowIndex (fallback b)")
    (simp_all add: tryResolveByFallback_def truthy_def Let_def)

lemma fallback_shape:
  assumes "tryResolveByFallback b st = Some t"
  shows "TmuxTarget.paneId t = None \<and> TmuxTarget.sessionId t \<noteq> None \<and>
         (kind b \<noteq> Session \<longrightarrow> TmuxTarget.windowId t \<noteq> None)"
  using assms by (cases "kind b")
    (auto simp add: tryResolveByFallback_def Let_def split: if_splits)

lemma id_unmatched:
  assumes "kind b = Session \<longrightarrow>
      (\<forall>s \<in> set (sessions st). Some (TmuxSession.sessionId s) \<noteq> TmuxTarget.sessionId (target b))"
    and "kind b = Window \<longrightarrow>
      (\<forall>w \<in> set (windows st). Some (TmuxWindow.windowId w) \<noteq> TmuxTarget.windowId (target b))"
    and "kind b = Pane \<longrightarrow>
      (\<forall>p \<in> set (panes st). Some (TmuxPane.paneId p) \<noteq> TmuxTarget.paneId (target b))"
  shows "tryResolveById b st = None"
proof (cases "kind b")
  case Session
  show ?thesis
  proof (cases "TmuxTarget.sessionId (target b)")
    case None
    with Session show ?thesis by (simp add: tryResolveById_def truthy_def)
  next
    case (Some i)
    with assms(1) Session have "findSessionById st i = None"
      by (auto simp add: findSessionById_def find_None_iff)
    with Session Some show ?thesis by (simp add: tryResolveById_def)
  qed
next
  case Window
  show ?thesis
  proof (cases "TmuxTarget.windowId (target b)")
    case None
    with Window show ?thesis by (simp add: tryResolveById_def truthy_def)
  next
    case (Some i)
    with assms(2) Window have "findWindowById st i = None"
      by (auto simp add: findWindowById_def find_None_iff)
    with Window Some show ?thesis by (simp add: tryResolveById_def)
  qed
next
  case Pane
  show ?thesis
  proof (cases "TmuxTarget.paneId (target b)")
    case None
    with Pane show ?thesis by (simp add: tryResolveById_def truthy_def)
  next
    case (Some i)
    with assms(3) Pane have "findPaneById st i = None"
      by (auto simp add: findPaneById_def find_None_iff)
    with Pane Some show ?thesis by (simp add: tryResolveById_def)
  qed
qed

lemma resolve_id: "tryResolveById b st = Some t \<Longrightarrow> resolveBookmark b st = Resolved MethodId t"
  by (simp add: resolveBookmark_def)

lemma resolve_fallback:
  "tryResolveById b st = None \<Longrightarrow> tryResolveByFallback b st = Some t \<Longrightarrow>
   resolveBookmark b st = Resolved MethodFallback t"
  by (simp add: resolveBookmark_def)

lemma resolve_cwd:
  "tryResolveById b st = None \<Longrightarrow> tryResolveByFallback b st = None \<Longrightarrow>
   BookmarkMeta.cwd (meta b) = Some c \<Longrightarrow> c \<noteq> [] \<Longrightarrow> tryResolveByCwd c st = Some t \<Longrightarrow>
   resolveBookmark b st = Resolved MethodCwd t"
  by (simp add: resolveBookmark_def truthy_def)

lemma resolve_cwd_only:
  "resolveBookmark b st = Resolved MethodCwd t \<Longrightarrow>
   tryResolveById b st = None \<and> tryResolveByFallback b st = None \<and>
   (\<exists>c. BookmarkMeta.cwd (meta b) = Some c \<and> c \<noteq> [] \<and> tryResolveByCwd c st = Some t)"
  by (cases "BookmarkMeta.cwd (meta b)")
    (auto simp add: resolveBookmark_def truthy_def split: option.splits if_splits)

lemma resolve_none:
  "tryResolveById b st = None \<Longrightarrow> tryResolveByFallback b st = None \<Longrightarrow>
   (\<forall>c. BookmarkMeta.cwd (meta b) = Some c \<and> c \<noteq> [] \<longrightarrow> tryResolveByCwd c st = None) \<Longrightarrow>
   resolveBookmark b st = Unresolved ''Could not resolve bookmark to a valid tmux target''"
  by (cases "BookmarkMeta.cwd (meta b)")
    (auto simp add: resolveBookmark_def truthy_def split: option.splits)

section \<open>The sample hierarchy\<close>

lemma live_session: "findSessionByName live ''work'' = Some work_session"
  by (simp add: findSessionByName_def live_def work_session_def)

lemma live_session_id: "TmuxSession.sessionId work_session = ''$7''"
  by (simp add: work_session_def)

lemma live_editor: "findWindowByName live ''$7'' ''editor'' = Some editor_window"
  by (simp add: findWindowByName_def live_def editor_window_def)

lemma live_gone: "findWindowByName live ''$7'' ''gone'' = None"
  by (simp add: findWindowByName_def live_def editor_window_def unnamed_window_def)

lemma live_unnamed: "findWindowByName live ''$7'' [] = Some unnamed_window"
  by (simp add: findWindowByName_def live_def editor_window_def unnamed_window_def)

lemma live_index0: "findWindowByIndex live ''$7'' 0 = Some editor_window"
  by (simp add: findWindowByIndex_def live_def editor_window_def)

lemma live_index1: "findWindowByIndex live ''$7'' 1 = Some unnamed_window"
  by (simp add: findWindowByIndex_def live_def editor_window_def unnamed_window_def)

lemma live_cwd:
  "tryResolveByCwd ''/srv/app'' live =
     Some \<lparr>TmuxTarget.sessionId = Some ''$7'', windowId = Some ''@2'', paneId = Some ''%5''\<rparr>"
  by (simp add: tryResolveByCwd_def live_def shell_pane_def)

lemma stale_id: "tryResolveById (stale k fb dir) live = None"
  by (cases k)
    (simp_all add: tryResolveById_def stale_def truthy_def findSessionById_def findWindowById_def
      findPaneById_def live_def work_session_def editor_window_def unnamed_window_def
      shell_pane_def)

lemma stale_fields:
  "kind (stale k fb dir) = k" "fallback (stale k fb dir) = fb"
  "BookmarkMeta.cwd (meta (stale k fb dir)) = dir"
  by (simp_all add: stale_def)

lemma stale_target:
  "TmuxTarget.sessionId (target (stale k fb dir)) = Some ''$1''"
  "TmuxTarget.windowId (target (stale k fb dir)) = Some ''@9''"
  "TmuxTarget.paneId (target (stale k fb dir)) = Some ''%9''"
  by (simp_all add: stale_def)

lemma live_ids:
  "map TmuxSession.sessionId (sessions live) = [''$7'']"
  "map TmuxWindow.windowId (windows live) = [''@1'', ''@2'']"
  "map TmuxPane.paneId (panes live) = [''%5'']"
  by (simp_all add: live_def work_session_def editor_window_def unnamed_window_def shell_pane_def)

lemma live_unmatched:
  "\<forall>x \<in> set (sessions live).
     Some (TmuxSession.sessionId x) \<noteq> TmuxTarget.sessionId (target (stale k fb dir))"
  "\<forall>x \<in> set (windows live).
     Some (TmuxWindow.windowId x) \<noteq> TmuxTarget.windowId (target (stale k fb dir))"
  "\<forall>x \<in> set (panes live).
     Some (TmuxPane.paneId x) \<noteq> TmuxTarget.paneId (target (stale k fb dir))"
  by (simp_all add: stale_def live_def work_session_def editor_window_def unnamed_window_def
      shell_pane_def)

section \<open>Resolution\<close>

text \<open>
  Claim C10. When \<open>fallback.sessionName\<close> is absent the fallback tier fails, whatever the
  kind of the bookmark and whatever \<open>fallback.windowName\<close> and \<open>fallback.windowIndex\<close>
  hold; the resolution of such a bookmark never carries the method \<open>fallback\<close>.
\<close>

theorem fallback_needs_sessionName:
  "TmuxFallback.sessionName (fallback b) = None \<Longrightarrow>
   tryResolveByFallback b st = None \<and> (\<forall>t. resolveBookmark b st \<noteq> Resolved MethodFallback t)"
proof -
  assume a: "TmuxFallback.sessionName (fallback b) = None"
  then have n: "tryResolveByFallback b st = None"
    by (simp add: fallback_no_session)
  then have "\<forall>t. resolveBookmark b st \<noteq> Resolved MethodFallback t"
    by (simp add: resolveBookmark_def split: option.splits)
  with n show ?thesis by simp
qed

theorem fallback_needs_sessionName_witness:
  "TmuxFallback.sessionName nameless_fallback = None \<and>
   findWindowByIndex live ''$7'' 0 = Some editor_window \<and>
   tryResolveByFallback (stale Session nameless_fallback None) live = None \<and>
   tryResolveByFallback (stale Window nameless_fallback None) live = None \<and>
   tryResolveByFallback (stale Pane nameless_fallback None) live = None \<and>
   resolveBookmark (stale Window nameless_fallback None) live =
     Unresolved ''Could not resolve bookmark to a valid tmux target''"
proof -
  have n: "TmuxFallback.sessionName (fallback (stale k nameless_fallback None)) = None" for k
    by (simp add: stale_def nameless_fallback_def)
  have u: "resolveBookmark (stale Window nameless_fallback None) live =
     Unresolved ''Could not resolve bookmark to a valid tmux target''"
    using fallback_needs_sessionName [OF n, of Window live]
    by (simp add: resolve_none stale_id stale_fields)
  from fallback_needs_sessionName [OF n, of Session live]
    fallback_needs_sessionName [OF n, of Window live]
    fallback_needs_sessionName [OF n, of Pane live]
  show ?thesis
    using u live_index0 by (simp add: nameless_fallback_def)
qed

text \<open>
  Claim C8, as amended. In the fallback tier a name counts as given when it is a
  non-empty string. For kind \<open>window\<close> or \<open>pane\<close>, once the session \<open>s\<close> is found by its
  name: if \<open>fallback.windowName\<close> is given and a window of \<open>s\<close> has that name, the tier
  yields that window, whatever \<open>fallback.windowIndex\<close> is; if no window is found by name
  (the name is absent, empty, or no window of \<open>s\<close> has it) and \<open>fallback.windowIndex\<close> is
  defined and a window of \<open>s\<close> has that index, it yields that window; if neither lookup
  finds a window it yields nothing. When no session is found (the session name is
  absent, empty, or no live session has it) the tier yields nothing. A target it yields
  has a \<open>sessionId\<close>, has no \<open>paneId\<close>, and for kind \<open>window\<close> or \<open>pane\<close> has a
  \<open>windowId\<close>.
\<close>

theorem tryResolveByFallback_window_lookup:
  "(\<forall>sn s. kind b \<noteq> Session \<and> TmuxFallback.sessionName (fallback b) = Some sn \<and> sn \<noteq> [] \<and>
       findSessionByName st sn = Some s \<longrightarrow>
     (\<forall>wn w. TmuxFallback.windowName (fallback b) = Some wn \<and> wn \<noteq> [] \<and>
         findWindowByName st (TmuxSession.sessionId s) wn = Some w \<longrightarrow>
       tryResolveByFallback b st =
         Some \<lparr>TmuxTarget.sessionId = Some (TmuxSession.sessionId s),
               windowId = Some (TmuxWindow.windowId w), paneId = None\<rparr>) \<and>
     (\<forall>i w. (\<forall>wn. TmuxFallback.windowName (fallback b) = Some wn \<and> wn \<noteq> [] \<longrightarrow>
                findWindowByName st (TmuxSession.sessionId s) wn = None) \<and>
         TmuxFallback.windowIndex (fallback b) = Some i \<and>
         findWindowByIndex st (TmuxSession.sessionId s) i = Some w \<longrightarrow>
       tryResolveByFallback b st =
         Some \<lparr>TmuxTarget.sessionId = Some (TmuxSession.sessionId s),
               windowId = Some (TmuxWindow.windowId w), paneId = None\<rparr>) \<and>
     ((\<forall>wn. TmuxFallback.windowName (fallback b) = Some wn \<and> wn \<noteq> [] \<longrightarrow>
                findWindowByName st (TmuxSession.sessionId s) wn = None) \<and>
      (\<forall>i. TmuxFallback.windowIndex (fallback b) = Some i \<longrightarrow>
                findWindowByIndex st (TmuxSession.sessionId s) i = None) \<longrightarrow>
       tryResolveByFallback b st = None)) \<and>
   ((\<forall>sn. TmuxFallback.sessionName (fallback b) = Some sn \<and> sn \<noteq> [] \<longrightarrow>
        findSessionByName st sn = None) \<longrightarrow>
     tryResolveByFallback b st = None) \<and>
   (\<forall>t. tryResolveByFallback b st = Some t \<longrightarrow>
      TmuxTarget.paneId t = None \<and> TmuxTarget.sessionId t \<noteq> None \<and>
      (kind b \<noteq> Session \<longrightarrow> TmuxTarget.windowId t \<noteq> None))"
proof (intro conjI allI impI)
  fix sn s wn w
  assume "kind b \<noteq> Session \<and> TmuxFallback.sessionName (fallback b) = Some sn \<and> sn \<noteq> [] \<and>
       findSessionByName st sn = Some s"
    and "TmuxFallback.windowName (fallback b) = Some wn \<and> wn \<noteq> [] \<and>
         findWindowByName st (TmuxSession.sessionId s) wn = Some w"
  then show "tryResolveByFallback b st =
         Some \<lparr>TmuxTarget.sessionId = Some (TmuxSession.sessionId s),
               windowId = Some (TmuxWindow.windowId w), paneId = None\<rparr>"
    by (simp add: fallback_by_name)
next
  fix sn s i w
  assume "kind b \<noteq> Session \<and> TmuxFallback.sessionName (fallback b) = Some sn \<and> sn \<noteq> [] \<and>
       findSessionByName st sn = Some s"
    and "(\<forall>wn. TmuxFallback.windowName (fallback b) = Some wn \<and> wn \<noteq> [] \<longrightarrow>
                findWindowByName st (TmuxSession.sessionId s) wn = None) \<and>
         TmuxFallback.windowIndex (fallback b) = Some i \<and>
         findWindowByIndex st (TmuxSession.sessionId s) i = Some w"
  then show "tryResolveByFallback b st =
         Some \<lparr>TmuxTarget.sessionId = Some (TmuxSession.sessionId s),
               windowId = Some (TmuxWindow.windowId w), paneId = None\<rparr>"
    using fallback_by_index [of b sn st s i w] by blast
next
  fix sn s
  assume "kind b \<noteq> Session \<and> TmuxFallback.sessionName (fallback b) = Some sn \<and> sn \<noteq> [] \<and>
       findSessionByName st sn = Some s"
    and "(\<forall>wn. TmuxFallback.windowName (fallback b) = Some wn \<and> wn \<noteq> [] \<longrightarrow>
                findWindowByName st (TmuxSession.sessionId s) wn = None) \<and>
      (\<forall>i. TmuxFallback.windowIndex (fallback b) = Some i \<longrightarrow>
                findWindowByIndex st (TmuxSession.sessionId s) i = None)"
  then show "tryResolveByFallback b st = None"
    using fallback_no_window [of b sn st s] by blast
next
  assume "\<forall>sn. TmuxFallback.sessionName (fallback b) = Some sn \<and> sn \<noteq> [] \<longrightarrow>
        findSessionByName st sn = None"
  then show "tryResolveByFallback b st = None"
    by (rule fallback_no_session)
next
  fix t
  assume t: "tryResolveByFallback b st = Some t"
  from fallback_shape [OF t] show "TmuxTarget.paneId t = None" by simp
  from fallback_shape [OF t] show "TmuxTarget.sessionId t \<noteq> None" by simp
  assume "kind b \<noteq> Session"
  with fallback_shape [OF t] show "TmuxTarget.windowId t \<noteq> None" by simp
qed

theorem tryResolveByFallback_window_lookup_witness:
  "findSessionByName live ''work'' = Some work_session \<and>
   findWindowByName live ''$7'' ''gone'' = None \<and>
   findWindowByIndex live ''$7'' 1 = Some unnamed_window \<and>
   tryResolveByFallback (stale Pane renamed_fallback None) live =
     Some \<lparr>TmuxTarget.sessionId = Some ''$7'', windowId = Some ''@2'', paneId = None\<rparr> \<and>
   findWindowByName live ''$7'' ''editor'' = Some editor_window \<and>
   tryResolveByFallback (stale Window editor_fallback None) live =
     Some \<lparr>TmuxTarget.sessionId = Some ''$7'', windowId = Some ''@1'', paneId = None\<rparr>"
proof -
  have 1: "tryResolveByFallback (stale Pane renamed_fallback None) live =
     Some \<lparr>TmuxTarget.sessionId = Some (TmuxSession.sessionId work_session),
           windowId = Some (TmuxWindow.windowId unnamed_window), paneId = None\<rparr>"
  proof -
    have "kind (stale Pane renamed_fallback None) \<noteq> Session \<and>
        TmuxFallback.sessionName (fallback (stale Pane renamed_fallback None)) = Some ''work'' \<and>
        ''work'' \<noteq> [] \<and> findSessionByName live ''work'' = Some work_session"
      by (simp add: stale_fields renamed_fallback_def live_session)
    moreover have "(\<forall>wn. TmuxFallback.windowName (fallback (stale Pane renamed_fallback None)) = Some wn \<and>
          wn \<noteq> [] \<longrightarrow> findWindowByName live (TmuxSession.sessionId work_session) wn = None) \<and>
        TmuxFallback.windowIndex (fallback (stale Pane renamed_fallback None)) = Some 1 \<and>
        findWindowByIndex live (TmuxSession.sessionId work_session) 1 = Some unnamed_window"
      by (simp add: stale_fields renamed_fallback_def live_session_id live_gone live_index1)
    ultimately show ?thesis
      using tryResolveByFallback_window_lookup [of "stale Pane renamed_fallback None" live]
      by blast
  qed
  have 2: "tryResolveByFallback (stale Window editor_fallback None) live =
     Some \<lparr>TmuxTarget.sessionId = Some (TmuxSession.sessionId work_session),
           windowId = Some (TmuxWindow.windowId editor_window), paneId = None\<rparr>"
  proof -
    have "kind (stale Window editor_fallback None) \<noteq> Session \<and>
        TmuxFallback.sessionName (fallback (stale Window editor_fallback None)) = Some ''work'' \<and>
        ''work'' \<noteq> [] \<and> findSessionByName live ''work'' = Some work_session"
      by (simp add: stale_fields editor_fallback_def live_session)
    moreover have "TmuxFallback.windowName (fallback (stale Window editor_fallback None)) = Some ''editor'' \<and>
        ''editor'' \<noteq> [] \<and>
        findWindowByName live (TmuxSession.sessionId work_session) ''editor'' = Some editor_window"
      by (simp add: stale_fields editor_fallback_def live_session_id live_editor)
    ultimately show ?thesis
      using tryResolveByFallback_window_lookup [of "stale Window editor_fallback None" live]
      by blast
  qed
  have ids: "TmuxWindow.windowId unnamed_window = ''@2''" "TmuxWindow.windowId editor_window = ''@1''"
    by (simp_all add: unnamed_window_def editor_window_def)
  from 1 2 show ?thesis
    using ids live_session live_session_id live_gone live_index1 live_editor by simp
qed

text \<open>
  The claim as it was stated fails when \<open>fallback.windowName\<close> is the empty string: the
  session \<open>work\<close> has a window with the empty name (\<open>@2\<close>), so a lookup by name would
  find it, but the lookup is not made and the tier yields the window of index 0 (\<open>@1\<close>).
\<close>

theorem empty_window_name_not_sought_counterexample:
  "TmuxFallback.windowName (fallback (stale Window empty_name_index_fallback None)) = Some [] \<and>
   findSessionByName live ''work'' = Some work_session \<and>
   findWindowByName live ''$7'' [] = Some unnamed_window \<and>
   TmuxWindow.windowId unnamed_window = ''@2'' \<and>
   tryResolveByFallback (stale Window empty_name_index_fallback None) live =
     Some \<lparr>TmuxTarget.sessionId = Some ''$7'', windowId = Some ''@1'', paneId = None\<rparr>"
proof -
  have "tryResolveByFallback (stale Window empty_name_index_fallback None) live =
     Some \<lparr>TmuxTarget.sessionId = Some ''$7'', windowId = Some ''@1'', paneId = None\<rparr>"
    by (simp add: tryResolveByFallback_def stale_def empty_name_index_fallback_def truthy_def
        Let_def live_session live_session_id live_index0 editor_window_def)
  then show ?thesis
    using live_session live_unnamed
    by (simp add: stale_fields empty_name_index_fallback_def unnamed_window_def)
qed

text \<open>
  Claim C1, as amended. \<open>resolveBookmark\<close> tries the tiers in order and the first that
  succeeds gives the result, with its own tag: the identifier tier if it yields a target;
  else the fallback tier if it yields one; else the working-directory tier, which is
  tried only when \<open>meta.cwd\<close> is recorded as a non-empty string; else the resolution
  fails. In particular, when no live entity of the bookmark's kind has the stable
  identifier it records, and its fallback session name is a non-empty string that a
  live session \<open>s\<close> has, and (for kind \<open>window\<close> or \<open>pane\<close>) its fallback window name is a
  non-empty string that a window \<open>w\<close> of \<open>s\<close> has, the result has the method \<open>fallback\<close>
  (with the target \<open>s\<close>, or \<open>s\<close> and \<open>w\<close>), not \<open>id\<close> and not \<open>cwd\<close>.
\<close>

theorem resolveBookmark_tier_order:
  "(\<forall>t. tryResolveById b st = Some t \<longrightarrow> resolveBookmark b st = Resolved MethodId t) \<and>
   (\<forall>t. tryResolveById b st = None \<and> tryResolveByFallback b st = Some t \<longrightarrow>
      resolveBookmark b st = Resolved MethodFallback t) \<and>
   (\<forall>c t. tryResolveById b st = None \<and> tryResolveByFallback b st = None \<and>
      BookmarkMeta.cwd (meta b) = Some c \<and> c \<noteq> [] \<and> tryResolveByCwd c st = Some t \<longrightarrow>
      resolveBookmark b st = Resolved MethodCwd t) \<and>
   (\<forall>t. resolveBookmark b st = Resolved MethodCwd t \<longrightarrow>
      tryResolveById b st = None \<and> tryResolveByFallback b st = None \<and>
      (\<exists>c. BookmarkMeta.cwd (meta b) = Some c \<and> c \<noteq> [] \<and> tryResolveByCwd c st = Some t)) \<and>
   (tryResolveById b st = None \<and> tryResolveByFallback b st = None \<and>
      (\<forall>c. BookmarkMeta.cwd (meta b) = Some c \<and> c \<noteq> [] \<longrightarrow> tryResolveByCwd c st = None) \<longrightarrow>
      resolveBookmark b st = Unresolved ''Could not resolve bookmark to a valid tmux target'') \<and>
   (\<forall>sn s. kind b = Session \<and>
      (\<forall>x \<in> set (sessions st). Some (TmuxSession.sessionId x) \<noteq> TmuxTarget.sessionId (target b)) \<and>
      TmuxFallback.sessionName (fallback b) = Some sn \<and> sn \<noteq> [] \<and>
      findSessionByName st sn = Some s \<longrightarrow>
      resolveBookmark b st =
        Resolved MethodFallback
          \<lparr>TmuxTarget.sessionId = Some (TmuxSession.sessionId s), windowId = None,
           paneId = None\<rparr>) \<and>
   (\<forall>sn s wn w. kind b \<noteq> Session \<and>
      (kind b = Window \<longrightarrow>
         (\<forall>x \<in> set (windows st). Some (TmuxWindow.windowId x) \<noteq> TmuxTarget.windowId (target b))) \<and>
      (kind b = Pane \<longrightarrow>
         (\<forall>x \<in> set (panes st). Some (TmuxPane.paneId x) \<noteq> TmuxTarget.paneId (target b))) \<and>
      TmuxFallback.sessionName (fallback b) = Some sn \<and> sn \<noteq> [] \<and>
      findSessionByName st sn = Some s \<and>
      TmuxFallback.windowName (fallback b) = Some wn \<and> wn \<noteq> [] \<and>
      findWindowByName st (TmuxSession.sessionId s) wn = Some w \<longrightarrow>
      resolveBookmark b st =
        Resolved MethodFallback
          \<lparr>TmuxTarget.sessionId = Some (TmuxSession.sessionId s),
           windowId = Some (TmuxWindow.windowId w), paneId = None\<rparr>)"
proof (intro conjI allI impI)
  fix t assume "tryResolveById b st = Some t"
  then show "resolveBookmark b st = Resolved MethodId t" by (rule resolve_id)
next
  fix t assume "tryResolveById b st = None \<and> tryResolveByFallback b st = Some t"
  then show "resolveBookmark b st = Resolved MethodFallback t" by (simp add: resolve_fallback)
next
  fix c t
  assume "tryResolveById b st = None \<and> tryResolveByFallback b st = None \<and>
      BookmarkMeta.cwd (meta b) = Some c \<and> c \<noteq> [] \<and> tryResolveByCwd c st = Some t"
  then show "resolveBookmark b st = Resolved MethodCwd t" by (simp add: resolve_cwd)
next
  fix t assume r: "resolveBookmark b st = Resolved MethodCwd t"
  from resolve_cwd_only [OF r] show "tryResolveById b st = None" by simp
  from resolve_cwd_only [OF r] show "tryResolveByFallback b st = None" by simp
  from resolve_cwd_only [OF r]
  show "\<exists>c. BookmarkMeta.cwd (meta b) = Some c \<and> c \<noteq> [] \<and> tryResolveByCwd c st = Some t" by simp
next
  assume "tryResolveById b st = None \<and> tryResolveByFallback b st = None \<and>
      (\<forall>c. BookmarkMeta.cwd (meta b) = Some c \<and> c \<noteq> [] \<longrightarrow> tryResolveByCwd c st = None)"
  then show "resolveBookmark b st = Unresolved ''Could not resolve bookmark to a valid tmux target''"
    by (simp add: resolve_none)
next
  fix sn s
  assume a: "kind b = Session \<and>
      (\<forall>x \<in> set (sessions st). Some (TmuxSession.sessionId x) \<noteq> TmuxTarget.sessionId (target b)) \<and>
      TmuxFallback.sessionName (fallback b) = Some sn \<and> sn \<noteq> [] \<and>
      findSessionByName st sn = Some s"
  then have "tryResolveById b st = None" by (intro id_unmatched) simp_all
  moreover from a have "tryResolveByFallback b st =
      Some \<lparr>TmuxTarget.sessionId = Some (TmuxSession.sessionId s), windowId = None, paneId = None\<rparr>"
    by (simp add: fallback_session)
  ultimately show "resolveBookmark b st =
        Resolved MethodFallback
          \<lparr>TmuxTarget.sessionId = Some (TmuxSession.sessionId s), windowId = None,
           paneId = None\<rparr>"
    by (rule resolve_fallback)
next
  fix sn s wn w
  assume a: "kind b \<noteq> Session \<and>
      (kind b = Window \<longrightarrow>
         (\<forall>x \<in> set (windows st). Some (TmuxWindow.windowId x) \<noteq> TmuxTarget.windowId (target b))) \<and>
      (kind b = Pane \<longrightarrow>
         (\<forall>x \<in> set (panes st). Some (TmuxPane.paneId x) \<noteq> TmuxTarget.paneId (target b))) \<and>
      TmuxFallback.sessionName (fallback b) = Some sn \<and> sn \<noteq> [] \<and>
      findSessionByName st sn = Some s \<and>
      TmuxFallback.windowName (fallback b) = Some wn \<and> wn \<noteq> [] \<and>
      findWindowByName st (TmuxSession.sessionId s) wn = Some w"
  then have "tryResolveById b st = None" by (intro id_unmatched) simp_all
  moreover from a have "tryResolveByFallback b st =
      Some \<lparr>TmuxTarget.sessionId = Some (TmuxSession.sessionId s),
            windowId = Some (TmuxWindow.windowId w), paneId = None\<rparr>"
    by (simp add: fallback_by_name)
  ultimately show "resolveBookmark b st =
        Resolved MethodFallback
          \<lparr>TmuxTarget.sessionId = Some (TmuxSession.sessionId s),
           windowId = Some (TmuxWindow.windowId w), paneId = None\<rparr>"
    by (rule resolve_fallback)
qed

theorem resolveBookmark_tier_order_witness:
  "map TmuxSession.sessionId (sessions live) = [''$7''] \<and>
   TmuxTarget.sessionId (target (stale Session work_fallback None)) = Some ''$1'' \<and>
   findSessionByName live ''work'' = Some work_session \<and>
   resolveBookmark (stale Session work_fallback None) live =
     Resolved MethodFallback
       \<lparr>TmuxTarget.sessionId = Some ''$7'', windowId = None, paneId = None\<rparr> \<and>
   map TmuxWindow.windowId (windows live) = [''@1'', ''@2''] \<and>
   TmuxTarget.windowId (target (stale Window editor_fallback None)) = Some ''@9'' \<and>
   findWindowByName live ''$7'' ''editor'' = Some editor_window \<and>
   resolveBookmark (stale Window editor_fallback None) live =
     Resolved MethodFallback
       \<lparr>TmuxTarget.sessionId = Some ''$7'', windowId = Some ''@1'', paneId = None\<rparr> \<and>
   resolveBookmark (stale Window nameless_fallback (Some ''/srv/app'')) live =
     Resolved MethodCwd
       \<lparr>TmuxTarget.sessionId = Some ''$7'', windowId = Some ''@2'', paneId = Some ''%5''\<rparr>"
proof -
  have 1: "resolveBookmark (stale Session work_fallback None) live =
     Resolved MethodFallback
       \<lparr>TmuxTarget.sessionId = Some (TmuxSession.sessionId work_session), windowId = None,
        paneId = None\<rparr>"
  proof -
    have "kind (stale Session work_fallback None) = Session \<and>
      (\<forall>x \<in> set (sessions live). Some (TmuxSession.sessionId x) \<noteq>
         TmuxTarget.sessionId (target (stale Session work_fallback None))) \<and>
      TmuxFallback.sessionName (fallback (stale Session work_fallback None)) = Some ''work'' \<and>
      ''work'' \<noteq> [] \<and> findSessionByName live ''work'' = Some work_session"
      using live_unmatched(1) [of Session work_fallback None]
      by (simp add: stale_fields work_fallback_def live_session)
    then show ?thesis
      using resolveBookmark_tier_order [of "stale Session work_fallback None" live] by blast
  qed
  have 2: "resolveBookmark (stale Window editor_fallback None) live =
     Resolved MethodFallback
       \<lparr>TmuxTarget.sessionId = Some (TmuxSession.sessionId work_session),
        windowId = Some (TmuxWindow.windowId editor_window), paneId = None\<rparr>"
  proof -
    have "kind (stale Window editor_fallback None) \<noteq> Session \<and>
      (kind (stale Window editor_fallback None) = Window \<longrightarrow>
         (\<forall>x \<in> set (windows live). Some (TmuxWindow.windowId x) \<noteq>
            TmuxTarget.windowId (target (stale Window editor_fallback None)))) \<and>
      (kind (stale Window editor_fallback None) = Pane \<longrightarrow>
         (\<forall>x \<in> set (panes live). Some (TmuxPane.paneId x) \<noteq>
            TmuxTarget.paneId (target (stale Window editor_fallback None)))) \<and>
      TmuxFallback.sessionName (fallback (stale Window editor_fallback None)) = Some ''work'' \<and>
      ''work'' \<noteq> [] \<and> findSessionByName live ''work'' = Some work_session \<and>
      TmuxFallback.windowName (fallback (stale Window editor_fallback None)) = Some ''editor'' \<and>
      ''editor'' \<noteq> [] \<and>
      findWindowByName live (TmuxSession.sessionId work_session) ''editor'' = Some editor_window"
      using live_unmatched(2) [of Window editor_fallback None]
      by (simp add: stale_fields editor_fallback_def live_session live_session_id live_editor)
    then show ?thesis
      using resolveBookmark_tier_order [of "stale Window editor_fallback None" live] by blast
  qed
  have 3: "resolveBookmark (stale Window nameless_fallback (Some ''/srv/app'')) live =
     Resolved MethodCwd
       \<lparr>TmuxTarget.sessionId = Some ''$7'', windowId = Some ''@2'', paneId = Some ''%5''\<rparr>"
  proof -
    have "tryResolveById (stale Window nameless_fallback (Some ''/srv/app'')) live = None \<and>
      tryResolveByFallback (stale Window nameless_fallback (Some ''/srv/app'')) live = None \<and>
      BookmarkMeta.cwd (meta (stale Window nameless_fallback (Some ''/srv/app''))) =
        Some ''/srv/app'' \<and> ''/srv/app'' \<noteq> [] \<and>
      tryResolveByCwd ''/srv/app'' live =
        Some \<lparr>TmuxTarget.sessionId = Some ''$7'', windowId = Some ''@2'', paneId = Some ''%5''\<rparr>"
      by (simp add: stale_id stale_fields live_cwd fallback_no_session nameless_fallback_def)
    then show ?thesis
      using resolveBookmark_tier_order [of "stale Window nameless_fallback (Some ''/srv/app'')" live]
      by blast
  qed
  have ids: "TmuxWindow.windowId editor_window = ''@1''"
    by (simp add: editor_window_def)
  from 1 2 3 show ?thesis
    using ids live_ids stale_target live_session live_session_id live_editor by simp
qed

text \<open>
  The claim as it was stated fails when the fallback window name is the empty string.
  The bookmark's window \<open>@9\<close> is not live; its fallback names are \<open>work\<close> and the empty
  name, and the live session \<open>work\<close> has a window with the empty name (\<open>@2\<close>). The
  fallback tier does not look an empty name up and yields nothing, and the bookmark
  resolves by its working directory: the method is \<open>cwd\<close>.
\<close>

theorem empty_window_name_resolves_by_cwd_counterexample:
  "map TmuxWindow.windowId (windows live) = [''@1'', ''@2''] \<and>
   TmuxTarget.windowId (target (stale Window empty_name_fallback (Some ''/srv/app''))) =
     Some ''@9'' \<and>
   tryResolveById (stale Window empty_name_fallback (Some ''/srv/app'')) live = None \<and>
   TmuxFallback.sessionName (fallback (stale Window empty_name_fallback (Some ''/srv/app''))) =
     Some ''work'' \<and>
   findSessionByName live ''work'' = Some work_session \<and>
   TmuxFallback.windowName (fallback (stale Window empty_name_fallback (Some ''/srv/app''))) =
     Some [] \<and>
   findWindowByName live ''$7'' [] = Some unnamed_window \<and>
   resolveBookmark (stale Window empty_name_fallback (Some ''/srv/app'')) live =
     Resolved MethodCwd
       \<lparr>TmuxTarget.sessionId = Some ''$7'', windowId = Some ''@2'', paneId = Some ''%5''\<rparr>"
proof -
  have f: "tryResolveByFallback (stale Window empty_name_fallback (Some ''/srv/app'')) live = None"
    by (simp add: tryResolveByFallback_def stale_def empty_name_fallback_def truthy_def
        Let_def live_session)
  have "resolveBookmark (stale Window empty_name_fallback (Some ''/srv/app'')) live =
     Resolved MethodCwd
       \<lparr>TmuxTarget.sessionId = Some ''$7'', windowId = Some ''@2'', paneId = Some ''%5''\<rparr>"
    using f by (simp add: resolve_cwd stale_id stale_fields live_cwd)
  then show ?thesis
    using live_ids stale_target stale_id live_session live_unnamed
    by (simp add: stale_fields empty_name_fallback_def)
qed

end
